theory Spec2Isabelle
  imports Complex_Main "HOL-Library.Sublist"
begin

section \<open>Strings\<close>

text \<open>
  A Python \<open>str\<close> is modelled as a \<open>string\<close>: a list of characters, each read as a
  Unicode code point in the range U+0000 .. U+00FF. On that range \<open>str.lower()\<close> works
  character by character: the letters \<open>A\<close> .. \<open>Z\<close> (65 .. 90) and the Latin-1 capitals
  U+00C0 .. U+00DE (192 .. 222, the multiplication sign 215 excepted) move up by 32, every
  other character stays.
\<close>

definition lower_char :: "char \<Rightarrow> char" where
  "lower_char c =
     (let n = (of_char c :: nat)
      in if (65 \<le> n \<and> n \<le> 90) \<or> (192 \<le> n \<and> n \<le> 222 \<and> n \<noteq> 215)
         then char_of (n + 32) else c)"

definition lower :: "string \<Rightarrow> string" where
  "lower s = map lower_char s"

text \<open>
  Python's \<open>kw in text\<close> on strings: \<open>kw\<close> occurs in \<open>text\<close> as a contiguous block.
  \<open>starts_with text kw\<close> compares at the first position, \<open>str_contains\<close> tries every
  position from the left; the empty string occurs everywhere.
\<close>

fun starts_with :: "string \<Rightarrow> string \<Rightarrow> bool" where
  "starts_with text [] = True"
| "starts_with [] (k # ks) = False"
| "starts_with (c # cs) (k # ks) = (c = k \<and> starts_with cs ks)"

fun str_contains :: "string \<Rightarrow> string \<Rightarrow> bool" where
  "str_contains [] kw = (kw = [])"
| "str_contains (c # cs) kw = (starts_with (c # cs) kw \<or> str_contains cs kw)"

section \<open>Papers\<close>

text \<open>
  The dictionary that \<open>fetch_papers\<close> and \<open>fetch_papers_from_rss\<close> build for each feed
  entry: always these eight keys, so the lookups \<open>paper['id']\<close>, \<open>paper['title']\<close> and
  \<open>paper['abstract']\<close> of the search cannot miss.
\<close>

record paper =
  paper_id :: string
  title :: string
  abstract :: string
  authors :: "string list"
  link :: string
  published :: string
  updated :: string
  categories :: "string list"

section \<open>search\_papers\<close>

text \<open>
  The text searched for one paper: the lower-cased title followed by one space when the
  title is searched, then the lower-cased abstract when the abstract is searched.
\<close>

definition search_text :: "bool \<Rightarrow> bool \<Rightarrow> paper \<Rightarrow> string" where
  "search_text search_title search_abstract p =
     (let t0 = [];
          t1 = (if search_title then t0 @ lower (title p) @ '' '' else t0);
          t2 = (if search_abstract then t1 @ lower (abstract p) else t1)
      in t2)"

text \<open>
  The loop over the keywords of one group: the value of \<open>all_keywords_match\<close> when the
  loop ends, \<open>False\<close> at the first keyword that does not occur (the \<open>break\<close>).
\<close>

fun all_keywords_match :: "string \<Rightarrow> string list \<Rightarrow> bool" where
  "all_keywords_match text [] = True"
| "all_keywords_match text (keyword # rest) =
     (if \<not> str_contains text (lower keyword) then False
      else all_keywords_match text rest)"

text \<open>
  The loop over the keyword groups for one paper: at the first group whose keywords all
  match, the paper is appended to \<open>matched_papers\<close> and the loop is left.
\<close>

fun check_groups :: "paper \<Rightarrow> string \<Rightarrow> string list list \<Rightarrow> paper list \<Rightarrow> paper list" where
  "check_groups p text [] matched_papers = matched_papers"
| "check_groups p text (keyword_group # rest) matched_papers =
     (if all_keywords_match text keyword_group then matched_papers @ [p]
      else check_groups p text rest matched_papers)"

text \<open>The loop over the papers, with \<open>matched_papers\<close> as its accumulator.\<close>

fun search_loop ::
  "paper list \<Rightarrow> string list list \<Rightarrow> bool \<Rightarrow> bool \<Rightarrow> string set \<Rightarrow> paper list \<Rightarrow> paper list" where
  "search_loop [] keyword_groups search_title search_abstract sent matched_papers =
     matched_papers"
| "search_loop (p # rest) keyword_groups search_title search_abstract sent matched_papers =
     (if paper_id p \<in> sent
      then search_loop rest keyword_groups search_title search_abstract sent matched_papers
      else if \<not> search_title \<and> \<not> search_abstract
      then search_loop rest keyword_groups search_title search_abstract sent matched_papers
      else search_loop rest keyword_groups search_title search_abstract sent
             (check_groups p (search_text search_title search_abstract p) keyword_groups
                matched_papers))"

text \<open>
  The list \<open>search_papers\<close> returns. The last argument is \<open>sent_papers\<close>, \<open>None\<close> being
  Python's default \<open>None\<close>, which the function replaces by a fresh empty set.
\<close>

definition search_papers ::
  "paper list \<Rightarrow> string list list \<Rightarrow> bool \<Rightarrow> bool \<Rightarrow> string set option \<Rightarrow> paper list" where
  "search_papers papers keyword_groups search_title search_abstract sent_papers =
     (let sent = (case sent_papers of None \<Rightarrow> {} | Some s \<Rightarrow> s)
      in search_loop papers keyword_groups search_title search_abstract sent [])"

section \<open>The effects of a call of search\_papers\<close>

text \<open>
  A record of the logger: the level and the message. Of an error record only the fixed
  part of the message is kept; the text of the exception that follows it is not modelled.
\<close>

datatype level = INFO | ERROR

type_synonym log_record = "level \<times> string"

text \<open>Python's \<open>str(n)\<close> for a natural number, as the f-string formats \<open>len(...)\<close>.\<close>

fun str_of_nat :: "nat \<Rightarrow> string" where
  "str_of_nat n =
     (if n < 10 then [char_of (48 + n)]
      else str_of_nat (n div 10) @ [char_of (48 + n mod 10)])"

definition found_message :: "nat \<Rightarrow> string" where
  "found_message n = ''Found '' @ str_of_nat n @ '' papers matching the search criteria''"

text \<open>
  The objects the caller passes by reference, which a Python function could mutate: the
  list of papers, the list of keyword groups and the set of sent identifiers.
\<close>

record heap =
  papers_obj :: "paper list"
  keyword_groups_obj :: "string list list"
  sent_papers_obj :: "string set option"

section \<open>The history file\<close>

text \<open>
  What \<open>json.load\<close> returns: a dictionary (the members of the JSON object in the order
  of the document; of a key that occurs twice \<open>json.load\<close> keeps the last value), a list,
  a string, a number, a truth value or \<open>None\<close>. A number is kept by its
  value, which is how Python compares an \<open>int\<close> with a \<open>float\<close>; the non-finite floats
  that \<open>json\<close> accepts as an extension are left out.
\<close>

datatype json =
  JNull
| JBool bool
| JNum rat
| JStr string
| JArr "json list"
| JObj "(string \<times> json) list"

text \<open>
  What is stored at a path that \<open>os.path.exists\<close> finds and that is not a directory:
  \<^item> \<open>Unreadable\<close>: opening or reading it raises \<open>IOError\<close>;
  \<^item> \<open>Undecodable\<close>: its bytes are no text in the encoding of \<open>open\<close>, reading raises
    \<open>UnicodeDecodeError\<close>;
  \<^item> \<open>NotJson\<close>: text on which \<open>json.load\<close> raises \<open>JSONDecodeError\<close>, such as an
    empty file or a document cut short;
  \<^item> \<open>Doc j\<close>: a JSON document, which \<open>json.load\<close> reads as \<open>j\<close>.
\<close>

datatype file_content = Unreadable | Undecodable | NotJson | Doc json

record world =
  files :: "string \<rightharpoonup> file_content"
  dirs :: "string set"
  now :: string
  log :: "log_record list"

datatype py_error = AttributeError | TypeError | UnicodeDecodeError | OSError

text \<open>
  The elements a set built from a JSON value can hold. Python's \<open>True\<close> and \<open>False\<close>
  hash and compare as 1 and 0, so they are the numbers; lists and dictionaries are not
  hashable.
\<close>

datatype pykey = KNone | KNum rat | KStr string

fun hashable :: "json \<Rightarrow> pykey option" where
  "hashable JNull = Some KNone"
| "hashable (JBool b) = Some (KNum (if b then 1 else 0))"
| "hashable (JNum r) = Some (KNum r)"
| "hashable (JStr s) = Some (KStr s)"
| "hashable (JArr xs) = None"
| "hashable (JObj kvs) = None"

fun set_of_items :: "json list \<Rightarrow> py_error + pykey set" where
  "set_of_items [] = Inr {}"
| "set_of_items (x # xs) =
     (case hashable x of
        None \<Rightarrow> Inl TypeError
      | Some k \<Rightarrow> (case set_of_items xs of Inl e \<Rightarrow> Inl e | Inr S \<Rightarrow> Inr (insert k S)))"

text \<open>
  Python's \<open>set(v)\<close>: the items of a list, the characters of a string, the keys of a
  dictionary; \<open>TypeError\<close> for a value that is not iterable or an item that is not
  hashable.
\<close>

fun py_set :: "json \<Rightarrow> py_error + pykey set" where
  "py_set (JArr xs) = set_of_items xs"
| "py_set (JStr s) = Inr ((\<lambda>c. KStr [c]) ` set s)"
| "py_set (JObj kvs) = Inr ((\<lambda>kv. KStr (fst kv)) ` set kvs)"
| "py_set JNull = Inl TypeError"
| "py_set (JBool b) = Inl TypeError"
| "py_set (JNum r) = Inl TypeError"

text \<open>\<open>history.get(key, default)\<close>: only a dictionary has the method.\<close>

fun py_get :: "json \<Rightarrow> string \<Rightarrow> json \<Rightarrow> py_error + json" where
  "py_get (JObj kvs) key dflt =
     Inr (case map_of (rev kvs) key of None \<Rightarrow> dflt | Some v \<Rightarrow> v)"
| "py_get JNull key dflt = Inl AttributeError"
| "py_get (JBool b) key dflt = Inl AttributeError"
| "py_get (JNum r) key dflt = Inl AttributeError"
| "py_get (JStr s) key dflt = Inl AttributeError"
| "py_get (JArr xs) key dflt = Inl AttributeError"

definition path_exists :: "world \<Rightarrow> string \<Rightarrow> bool" where
  "path_exists w path = (files w path \<noteq> None \<or> path \<in> dirs w)"

definition log_error :: "string \<Rightarrow> world \<Rightarrow> world" where
  "log_error msg w = w\<lparr>log := log w @ [(ERROR, msg)]\<rparr>"

text \<open>
  \<open>load_sent_papers\<close>: the value returned or the exception raised, and the world after
  the call. The \<open>except\<close> clause catches \<open>JSONDecodeError\<close> and \<open>IOError\<close> only.
\<close>

definition load_sent_papers :: "world \<Rightarrow> string \<Rightarrow> (py_error + pykey set) \<times> world" where
  "load_sent_papers w history_file =
     (if \<not> path_exists w history_file then (Inr {}, w)
      else
        (case files w history_file of
           None \<Rightarrow> (Inr {}, log_error ''Error loading history file: '' w)
         | Some Unreadable \<Rightarrow> (Inr {}, log_error ''Error loading history file: '' w)
         | Some NotJson \<Rightarrow> (Inr {}, log_error ''Error loading history file: '' w)
         | Some Undecodable \<Rightarrow> (Inl UnicodeDecodeError, w)
         | Some (Doc history) \<Rightarrow>
             (case py_get history ''sent_papers'' (JArr []) of
                Inl e \<Rightarrow> (Inl e, w)
              | Inr v \<Rightarrow> (py_set v, w))))"



text \<open>
  The dictionary \<open>history\<close> that is dumped. \<open>sent_papers\<close> is the set of identifiers,
  given by \<open>list(sent_papers)\<close>: its elements in the order in which the set yields them.
\<close>

definition history_doc :: "string list \<Rightarrow> string \<Rightarrow> json" where
  "history_doc sent_papers timestamp =
     JObj [(''sent_papers'', JArr (map JStr sent_papers)), (''last_updated'', JStr timestamp)]"


section \<open>search\_papers as a sequence of statements\<close>

text \<open>
  The state a call of \<open>search_papers\<close> works on: the caller's objects, which the body
  reaches through its parameters, the world, and the local list \<open>matched_papers\<close>. Every
  statement of the body is a function from such a state to the next one, so that a
  statement that wrote to an argument or to the world would show in the state.
\<close>

record frame =
  objs :: heap
  env :: world
  matched :: "paper list"

text \<open>
  What the local name \<open>sent_papers\<close> denotes: the caller's set, or the fresh empty set
  made when the argument is \<open>None\<close>.
\<close>

definition sent_set :: "heap \<Rightarrow> string set" where
  "sent_set h = (case sent_papers_obj h of None \<Rightarrow> {} | Some s \<Rightarrow> s)"

text \<open>
  The loop over the keyword groups for one paper. Its only write is
  \<open>matched_papers.append(paper)\<close>.
\<close>

fun exec_groups :: "paper \<Rightarrow> string \<Rightarrow> string list list \<Rightarrow> frame \<Rightarrow> frame" where
  "exec_groups p text [] fr = fr"
| "exec_groups p text (keyword_group # rest) fr =
     (if all_keywords_match text keyword_group then fr\<lparr>matched := matched fr @ [p]\<rparr>
      else exec_groups p text rest fr)"

text \<open>
  The loop over the papers. Each pass reads the set of sent identifiers and the keyword
  groups from the state as it is then.
\<close>

fun exec_papers :: "paper list \<Rightarrow> bool \<Rightarrow> bool \<Rightarrow> frame \<Rightarrow> frame" where
  "exec_papers [] search_title search_abstract fr = fr"
| "exec_papers (p # rest) search_title search_abstract fr =
     (if paper_id p \<in> sent_set (objs fr)
      then exec_papers rest search_title search_abstract fr
      else if \<not> search_title \<and> \<not> search_abstract
      then exec_papers rest search_title search_abstract fr
      else exec_papers rest search_title search_abstract
             (exec_groups p (search_text search_title search_abstract p)
                (keyword_groups_obj (objs fr)) fr))"

text \<open>The call \<open>logger.info(...)\<close> that ends the body.\<close>

definition log_found :: "frame \<Rightarrow> frame" where
  "log_found fr =
     fr\<lparr>env := (env fr)\<lparr>log := log (env fr) @
                              [(INFO, found_message (length (matched fr)))]\<rparr>\<rparr>"

text \<open>
  One call of \<open>search_papers\<close> in the world \<open>w\<close> on the objects \<open>h\<close>: the list returned,
  the caller's objects after the call and the world after the call.
\<close>

definition search_papers_exec ::
  "bool \<Rightarrow> bool \<Rightarrow> heap \<Rightarrow> world \<Rightarrow> paper list \<times> heap \<times> world" where
  "search_papers_exec search_title search_abstract h w =
     (let fr0 = \<lparr>objs = h, env = w, matched = []\<rparr>;
          fr1 = exec_papers (papers_obj (objs fr0)) search_title search_abstract fr0;
          fr2 = log_found fr1
      in (matched fr2, objs fr2, env fr2))"

section \<open>Letter case\<close>







section \<open>The papers of the scenarios\<close>

text \<open>The two papers of the specification's scenarios, with the fields the search does not read left empty.\<close>

definition paper1 :: paper where
  "paper1 = \<lparr>paper_id = ''1'', title = ''Deep Learning for Robotics'',
     abstract = ''We study RL...'', authors = [], link = [], published = [], updated = [],
     categories = []\<rparr>"

definition paper2 :: paper where
  "paper2 = \<lparr>paper_id = ''2'', title = ''Graph Neural Networks'', abstract = ''...'',
     authors = [], link = [], published = [], updated = [], categories = []\<rparr>"








text \<open>The objects of one call: two papers, one rule, the second paper sent before.\<close>

definition example_call :: heap where
  "example_call = \<lparr>papers_obj = [paper1, paper2], keyword_groups_obj = [[''deep learning'']],
     sent_papers_obj = Some {''2''}\<rparr>"

section \<open>Two history files\<close>

text \<open>
  A world in which an earlier run has saved the identifier \<open>1\<close>, and a world whose
  history file holds the JSON document \<open>[]\<close>.
\<close>

definition stored_world :: world where
  "stored_world =
     \<lparr>files = [''sent_papers.json'' \<mapsto> Doc (history_doc [''1''] ''2024-05-01T09:00:00'')],
      dirs = {}, now = ''2024-05-02T09:00:00'', log = []\<rparr>"

definition list_world :: world where
  "list_world =
     \<lparr>files = [''sent_papers.json'' \<mapsto> Doc (JArr [])],
      dirs = {}, now = ''2024-05-02T09:00:00'', log = []\<rparr>"

section \<open>The papers a search selects\<close>

text \<open>
  The test one pass of the paper loop applies to a paper, read off the three branches of
  its body: not sent before, some scope enabled, some group with all its keywords found.
  The proofs show that the loop is the filter by this test.
\<close>

definition selected :: "string list list \<Rightarrow> bool \<Rightarrow> bool \<Rightarrow> string set \<Rightarrow> paper \<Rightarrow> bool" where
  "selected keyword_groups search_title search_abstract sent p \<longleftrightarrow>
     paper_id p \<notin> sent \<and> (search_title \<or> search_abstract) \<and>
     (\<exists>g \<in> set keyword_groups.
        all_keywords_match (search_text search_title search_abstract p) g)"

section \<open>Properties of the string operations\<close>

lemma starts_with_prefix: "starts_with s kw \<longleftrightarrow> prefix kw s"
  by (induction s kw rule: starts_with.induct) auto

lemma str_contains_sublist: "str_contains s kw \<longleftrightarrow> sublist kw s"
proof (induction s)
  case Nil
  show ?case by simp
next
  case (Cons c cs)
  show ?case
  proof (cases kw)
    case Nil
    then show ?thesis by simp
  next
    case (Cons k ks)
    with Cons.IH show ?thesis
      by (simp add: starts_with_prefix sublist_Cons_right del: starts_with.simps)
  qed
qed

section \<open>The loops of search\_papers\<close>

lemma all_keywords_match_iff:
  "all_keywords_match s g \<longleftrightarrow> (\<forall>k \<in> set g. sublist (lower k) s)"
  by (induction g) (simp_all add: str_contains_sublist)

lemma check_groups_eq:
  "check_groups p s kgs acc =
     (if \<exists>g \<in> set kgs. all_keywords_match s g then acc @ [p] else acc)"
  by (induction kgs) simp_all

lemma search_loop_filter:
  "search_loop ps kgs st sa sent acc = acc @ filter (selected kgs st sa sent) ps"
  by (induction ps arbitrary: acc) (auto simp: check_groups_eq selected_def)

lemma search_papers_filter:
  "search_papers ps kgs st sa (Some sent) = filter (selected kgs st sa sent) ps"
  by (simp add: search_papers_def search_loop_filter)

lemma search_papers_None:
  "search_papers ps kgs st sa None = search_papers ps kgs st sa (Some {})"
  by (simp add: search_papers_def)

lemma search_papers_ex_filter:
  "\<exists>sent. search_papers ps kgs st sa sp = filter (selected kgs st sa sent) ps"
  by (cases sp) (auto simp: search_papers_None search_papers_filter)

lemma count_list_filter_le: "count_list (filter P xs) x \<le> count_list xs x"
  by (induction xs) auto

section \<open>Matching\<close>

text \<open>
  Claim C1. A paper of the input list that was not sent before, searched with at least one
  scope flag set, is in the result of \<open>search_papers\<close> exactly when some keyword group has
  every keyword, lower-cased, occurring as a contiguous block of the searchable text: OR
  over the groups, AND within a group. The searchable text is built from the enabled
  fields: the lower-cased title and one space when the title is searched, followed by the
  lower-cased abstract when the abstract is searched.
\<close>

theorem search_papers_or_of_and:
  assumes "p \<in> set papers" and "paper_id p \<notin> sent" and "search_title \<or> search_abstract"
  shows "p \<in> set (search_papers papers keyword_groups search_title search_abstract (Some sent))
     \<longleftrightarrow> (\<exists>g \<in> set keyword_groups. \<forall>k \<in> set g.
            sublist (lower k)
              ((if search_title then lower (title p) @ '' '' else []) @
               (if search_abstract then lower (abstract p) else [])))"
proof -
  have "search_text search_title search_abstract p =
          (if search_title then lower (title p) @ '' '' else []) @
          (if search_abstract then lower (abstract p) else [])"
    by (simp add: search_text_def)
  with assms show ?thesis
    by (simp add: search_papers_filter selected_def all_keywords_match_iff)
qed

theorem search_papers_or_of_and_witness:
  "paper1 \<in> set [paper1, paper2] \<and> paper_id paper1 \<notin> {''7''} \<and>
   (False \<or> True) \<and> (True \<or> False) \<and> (True \<or> True) \<and>
   paper1 \<in> set (search_papers [paper1, paper2] [[''graph''], [''study'', ''RL'']]
                    False True (Some {''7''})) \<and>
   paper1 \<notin> set (search_papers [paper1, paper2] [[''deep learning''], [''study'', ''robot'']]
                    False True (Some {''7''})) \<and>
   paper1 \<notin> set (search_papers [paper1, paper2] [[''graph''], [''study'', ''RL'']]
                    True False (Some {''7''})) \<and>
   paper1 \<in> set (search_papers [paper1, paper2] [[''graph''], [''Robotics We'']]
                    True True (Some {''7''}))"
proof -
  have a: "paper1 \<in> set [paper1, paper2]" by simp
  have b: "paper_id paper1 \<notin> {''7''}" by code_simp
  have c1: "False \<or> True" and c2: "True \<or> False" and c3: "True \<or> True" by simp_all
  have g1: "\<exists>g \<in> set [[''graph''], [''study'', ''RL'']]. \<forall>k \<in> set g.
              sublist (lower k)
                ((if False then lower (title paper1) @ '' '' else []) @
                 (if True then lower (abstract paper1) else []))"
    by code_simp
  have g2: "\<not> (\<exists>g \<in> set [[''deep learning''], [''study'', ''robot'']]. \<forall>k \<in> set g.
              sublist (lower k)
                ((if False then lower (title paper1) @ '' '' else []) @
                 (if True then lower (abstract paper1) else [])))"
    by code_simp
  have g3: "\<not> (\<exists>g \<in> set [[''graph''], [''study'', ''RL'']]. \<forall>k \<in> set g.
              sublist (lower k)
                ((if True then lower (title paper1) @ '' '' else []) @
                 (if False then lower (abstract paper1) else [])))"
    by code_simp
  have g4: "\<exists>g \<in> set [[''graph''], [''Robotics We'']]. \<forall>k \<in> set g.
              sublist (lower k)
                ((if True then lower (title paper1) @ '' '' else []) @
                 (if True then lower (abstract paper1) else []))"
    by code_simp
  from search_papers_or_of_and [OF a b c1] g1
  have r1: "paper1 \<in> set (search_papers [paper1, paper2] [[''graph''], [''study'', ''RL'']]
                    False True (Some {''7''}))" by blast
  from search_papers_or_of_and [OF a b c1] g2
  have r2: "paper1 \<notin> set (search_papers [paper1, paper2]
                    [[''deep learning''], [''study'', ''robot'']] False True (Some {''7''}))"
    by blast
  from search_papers_or_of_and [OF a b c2] g3
  have r3: "paper1 \<notin> set (search_papers [paper1, paper2] [[''graph''], [''study'', ''RL'']]
                    True False (Some {''7''}))" by blast
  from search_papers_or_of_and [OF a b c3] g4
  have r4: "paper1 \<in> set (search_papers [paper1, paper2] [[''graph''], [''Robotics We'']]
                    True True (Some {''7''}))" by blast
  from a b c1 c2 c3 r1 r2 r3 r4 show ?thesis by blast
qed

text \<open>
  Claim C2. Whatever the papers, the keyword groups and the scope, no paper in the result
  of \<open>search_papers\<close> has its identifier in the set \<open>sent_papers\<close>.
\<close>

theorem search_papers_dedup:
  "p \<in> set (search_papers papers keyword_groups search_title search_abstract (Some sent))
     \<Longrightarrow> paper_id p \<notin> sent"
  by (simp add: search_papers_filter selected_def)

theorem search_papers_dedup_witness:
  "paper1 \<in> set (search_papers [paper1, paper2] [[''deep learning''], [''graph'']] True True
                    (Some {''2''})) \<and>
   paper_id paper1 \<notin> {''2''} \<and>
   search_papers [paper1, paper2] [[''deep learning''], [''graph'']] True True (Some {''2''})
     = [paper1]"
proof -
  have r: "search_papers [paper1, paper2] [[''deep learning''], [''graph'']] True True
             (Some {''2''}) = [paper1]"
    by code_simp
  then have m: "paper1 \<in> set (search_papers [paper1, paper2]
                  [[''deep learning''], [''graph'']] True True (Some {''2''}))"
    by simp
  from search_papers_dedup [OF m] m r show ?thesis by blast
qed

text \<open>
  Claim C3. The list \<open>search_papers\<close> returns is a subsequence of the input list: its
  papers are papers of the input in the input's order, no paper occurs in it more often than
  in the input (a paper that satisfies several groups is appended once), and a paper occurs
  at most once when the input lists each paper once.
\<close>

theorem search_papers_subseq:
  "subseq (search_papers papers keyword_groups search_title search_abstract sent_papers) papers \<and>
   (\<forall>p. count_list (search_papers papers keyword_groups search_title search_abstract sent_papers) p
          \<le> count_list papers p) \<and>
   (distinct papers \<longrightarrow>
      distinct (search_papers papers keyword_groups search_title search_abstract sent_papers))"
proof -
  obtain sent where
    "search_papers papers keyword_groups search_title search_abstract sent_papers =
       filter (selected keyword_groups search_title search_abstract sent) papers"
    using search_papers_ex_filter by blast
  then show ?thesis by (simp add: count_list_filter_le)
qed

theorem search_papers_subseq_witness:
  "distinct [paper1, paper2] \<and>
   search_papers [paper1, paper2] [[''deep''], [''robot''], [''graph'']] True True None
     = [paper1, paper2] \<and>
   distinct (search_papers [paper1, paper2] [[''deep''], [''robot''], [''graph'']]
               True True None)"
proof -
  have d: "distinct [paper1, paper2]" by code_simp
  have r: "search_papers [paper1, paper2] [[''deep''], [''robot''], [''graph'']] True True None
             = [paper1, paper2]"
    by code_simp
  from search_papers_subseq
         [of "[paper1, paper2]" "[[''deep''], [''robot''], [''graph'']]" True True None] d
  have "distinct (search_papers [paper1, paper2] [[''deep''], [''robot''], [''graph'']]
                    True True None)"
    by blast
  with d r show ?thesis by blast
qed

text \<open>
  Claim C5. With \<open>search_title\<close> and \<open>search_abstract\<close> both false, \<open>search_papers\<close>
  returns the empty list for every list of papers and every rule set, a non-empty one in
  particular.
\<close>

theorem search_papers_scope_exclusion:
  "search_papers papers keyword_groups False False sent_papers = []"
proof -
  obtain sent where
    "search_papers papers keyword_groups False False sent_papers =
       filter (selected keyword_groups False False sent) papers"
    using search_papers_ex_filter by blast
  then show ?thesis by (simp add: selected_def)
qed

text \<open>
  Claim C8. An empty keyword group is satisfied by every paper: a paper of the input that was
  not sent before, searched with at least one scope flag set, is in the result as soon as
  the rule set contains an empty group.
\<close>

theorem search_papers_empty_group:
  assumes "p \<in> set papers" and "paper_id p \<notin> sent" and "search_title \<or> search_abstract"
    and "[] \<in> set keyword_groups"
  shows "p \<in> set (search_papers papers keyword_groups search_title search_abstract (Some sent))"
proof -
  from assms(4)
  have "\<exists>g \<in> set keyword_groups.
          all_keywords_match (search_text search_title search_abstract p) g"
    by (intro bexI [of _ "[]"]) simp_all
  with assms(1-3) show ?thesis
    by (simp add: search_papers_filter selected_def)
qed

theorem search_papers_empty_group_witness:
  "paper2 \<in> set [paper1, paper2] \<and> paper_id paper2 \<notin> {''1''} \<and> (False \<or> True) \<and>
   [] \<in> set [[''deep learning''], []] \<and>
   paper2 \<in> set (search_papers [paper1, paper2] [[''deep learning''], []] False True
                    (Some {''1''}))"
proof -
  have a: "paper2 \<in> set [paper1, paper2]" by simp
  have b: "paper_id paper2 \<notin> {''1''}" by code_simp
  have c: "False \<or> True" by simp
  have d: "[] \<in> set [[''deep learning''], []]" by simp
  from search_papers_empty_group [OF a b c d] a b c d show ?thesis by blast
qed

text \<open>
  Claim C10. With no keyword group at all, \<open>search_papers\<close> returns the empty list for
  every list of papers, every scope and every set of sent identifiers; the model has no
  error branch, the function raises nothing on the way.
\<close>

theorem search_papers_no_groups:
  "search_papers papers [] search_title search_abstract sent_papers = []"
proof -
  obtain sent where
    "search_papers papers [] search_title search_abstract sent_papers =
       filter (selected [] search_title search_abstract sent) papers"
    using search_papers_ex_filter by blast
  then show ?thesis by (simp add: selected_def)
qed

section \<open>Letter case does not matter\<close>












section \<open>The effects of a call\<close>

lemma exec_groups_frame:
  "objs (exec_groups p s kgs fr) = objs fr \<and> env (exec_groups p s kgs fr) = env fr \<and>
   matched (exec_groups p s kgs fr) = check_groups p s kgs (matched fr)"
  by (induction kgs) simp_all

lemma exec_papers_frame:
  "objs (exec_papers ps st sa fr) = objs fr \<and> env (exec_papers ps st sa fr) = env fr \<and>
   matched (exec_papers ps st sa fr) =
     search_loop ps (keyword_groups_obj (objs fr)) st sa (sent_set (objs fr)) (matched fr)"
proof (induction ps arbitrary: fr)
  case Nil
  show ?case by simp
next
  case (Cons p ps)
  let ?kgs = "keyword_groups_obj (objs fr)" and ?sent = "sent_set (objs fr)"
  let ?fr' = "exec_groups p (search_text st sa p) ?kgs fr"
  note skip = Cons.IH [of fr] and pass = Cons.IH [of ?fr']
  show ?case
  proof (cases "paper_id p \<in> ?sent \<or> (\<not> st \<and> \<not> sa)")
    case True
    then have e: "exec_papers (p # ps) st sa fr = exec_papers ps st sa fr"
      by auto
    from True
    have l: "search_loop (p # ps) ?kgs st sa ?sent (matched fr) =
             search_loop ps ?kgs st sa ?sent (matched fr)"
      by auto
    from skip show ?thesis unfolding e l .
  next
    case False
    then have e: "exec_papers (p # ps) st sa fr = exec_papers ps st sa ?fr'"
      by auto
    from False
    have l: "search_loop (p # ps) ?kgs st sa ?sent (matched fr) =
             search_loop ps ?kgs st sa ?sent
               (check_groups p (search_text st sa p) ?kgs (matched fr))"
      by auto
    have g: "objs ?fr' = objs fr" "env ?fr' = env fr"
      "matched ?fr' = check_groups p (search_text st sa p) ?kgs (matched fr)"
      by (simp_all add: exec_groups_frame)
    from pass [unfolded g] show ?thesis unfolding e l .
  qed
qed

text \<open>
  Claim C9, as stated, fails: the call is not free of side effects. Its last statement
  writes a record to the log, so the world after a call is never the world before it.
\<close>

theorem search_papers_logs_counterexample:
  "log stored_world = [] \<and>
   fst (search_papers_exec True True example_call stored_world) = [paper1] \<and>
   log (snd (snd (search_papers_exec True True example_call stored_world))) =
     [(INFO, ''Found 1 papers matching the search criteria'')]"
  by code_simp

text \<open>
  Claim C9, amended. The list a call of \<open>search_papers\<close> returns is the same in every
  world: it is determined by the papers, the keyword groups, the scope flags and the sent
  set, and is the list of the function \<open>search_papers\<close> above. The call leaves the caller's
  objects, the set \<open>sent_papers\<close> among them, as they were. Its one effect on the world is
  the record it appends to the log; the files, the directories and the clock stay.
\<close>

theorem search_papers_exec_effects:
  "fst (search_papers_exec search_title search_abstract h w) =
     fst (search_papers_exec search_title search_abstract h w') \<and>
   fst (search_papers_exec search_title search_abstract h w) =
     search_papers (papers_obj h) (keyword_groups_obj h) search_title search_abstract
       (sent_papers_obj h) \<and>
   fst (snd (search_papers_exec search_title search_abstract h w)) = h \<and>
   snd (snd (search_papers_exec search_title search_abstract h w)) =
     w\<lparr>log := log w @
       [(INFO, found_message
                 (length (fst (search_papers_exec search_title search_abstract h w))))]\<rparr>"
proof -
  let ?fr = "\<lambda>v. exec_papers (papers_obj h) search_title search_abstract
                  \<lparr>objs = h, env = v, matched = []\<rparr>"
  have m: "matched (?fr v) =
             search_papers (papers_obj h) (keyword_groups_obj h) search_title search_abstract
               (sent_papers_obj h)" for v
    by (simp add: exec_papers_frame search_papers_def sent_set_def)
  have o: "objs (?fr v) = h" and e: "env (?fr v) = v" for v
    by (simp_all add: exec_papers_frame)
  have r: "search_papers_exec search_title search_abstract h v =
             (matched (?fr v), h,
              v\<lparr>log := log v @ [(INFO, found_message (length (matched (?fr v))))]\<rparr>)" for v
    by (simp add: search_papers_exec_def log_found_def Let_def o e)
  show ?thesis
    by (simp add: r m)
qed

section \<open>Loading the history\<close>




text \<open>
  Claim C6. The claim asks that \<open>load_sent_papers\<close> returns a set and raises nothing for
  every content of the history file. On a file that holds the JSON document \<open>[]\<close> the
  function raises \<open>AttributeError\<close>: \<open>json.load\<close> returns a list, a list has no method
  \<open>get\<close>, and the \<open>except\<close> clause does not catch the error.
\<close>

theorem load_sent_papers_list_document_raises:
  "fst (load_sent_papers list_world ''sent_papers.json'') = Inl AttributeError"
  by (simp add: load_sent_papers_def list_world_def path_exists_def)

text \<open>
  The part of the claim that holds: a history file that is absent, that cannot be read or
  that holds no JSON document gives the empty set, and nothing is raised.
\<close>

theorem load_sent_papers_degrades:
  assumes "files w history_file = None \<or> files w history_file = Some Unreadable \<or>
           files w history_file = Some NotJson"
  shows "fst (load_sent_papers w history_file) = Inr {}"
  using assms by (auto simp: load_sent_papers_def)

theorem load_sent_papers_degrades_witness:
  "(files stored_world ''history/sent.json'' = None \<or>
    files stored_world ''history/sent.json'' = Some Unreadable \<or>
    files stored_world ''history/sent.json'' = Some NotJson) \<and>
   fst (load_sent_papers stored_world ''history/sent.json'') = Inr {}"
proof -
  have a: "files stored_world ''history/sent.json'' = None \<or>
    files stored_world ''history/sent.json'' = Some Unreadable \<or>
    files stored_world ''history/sent.json'' = Some NotJson"
    by (simp add: stored_world_def)
  from load_sent_papers_degrades [OF a] a show ?thesis by blast
qed

section \<open>Saving the history\<close>







end
